theory Spec2Isabelle
  imports Main "HOL-Library.Sublist"
begin

section \<open>The syntax tree\<close>

text \<open>
  The renderer of \<^verbatim>\<open>slimit/visitors/ecmavisitor.py\<close> walks Python objects. The
  classes of \<^verbatim>\<open>slimit.ast\<close> are one constructor each, with the fields the rule of
  that class reads, in the order of the class's keyword arguments. Every reference of the
  tree is a Python reference, so it may also hold \<^verbatim>\<open>None\<close> (\<open>PyNone\<close>) or an object
  of a class the renderer does not know (\<open>Other cls r\<close>: an object whose class is named
  \<open>cls\<close> and whose \<^verbatim>\<open>repr\<close> is the text \<open>r\<close>; it has none of the attributes the
  rules read, it is not iterable, and it is not a tuple, which the \<^verbatim>\<open>%\<close> operator
  would take for its argument list). The text fields (\<open>value\<close>, \<open>op\<close>) hold strings and
  the list fields (\<open>children\<close>, \<open>cases\<close>, \<open>elements\<close> of a clause) hold lists.

  Fields: \<open>VarDecl identifier initializer\<close>, \<open>Assign left op right\<close>,
  \<open>Comma left right\<close>, \<open>If_node predicate consequent alternative\<close>,
  \<open>For init cond count statement\<close>, \<open>ForIn item iterable statement\<close>,
  \<open>BinOp left op right\<close>, \<open>UnaryOp op value postfix\<close>, \<open>DoWhile predicate statement\<close>,
  \<open>While predicate statement\<close>, \<open>With expr statement\<close>, \<open>Label identifier statement\<close>,
  \<open>Switch expr cases default\<close>, \<open>Case expr elements\<close>, \<open>Try statements catch fin\<close>,
  \<open>Catch identifier elements\<close>; the one-field constructors hold \<open>children\<close>,
  \<open>value\<close>, \<open>expr\<close>, \<open>identifier\<close> or \<open>elements\<close>.
\<close>

datatype node =
    PyNone
  | Other string string
  | Program "node list"
  | Block "node list"
  | VarStatement "node list"
  | VarDecl node node
  | Identifier string
  | Assign node string node
  | Number string
  | Comma node node
  | EmptyStatement string
  | If_node node node node
  | Boolean string
  | For node node node node
  | ForIn node node node
  | BinOp node string node
  | UnaryOp string node bool
  | ExprStatement node
  | DoWhile node node
  | While node node
  | Null string
  | String string
  | Continue node
  | Break node
  | Return node
  | With node node
  | Label node node
  | Switch node "node list" node
  | Case node "node list"
  | Default "node list"
  | Throw node
  | Debugger string
  | Try node node node
  | Catch node node
  | Finally node

text \<open>\<^verbatim>\<open>node.__class__.__name__\<close>\<close>

fun class_name :: "node \<Rightarrow> string" where
  "class_name PyNone = ''NoneType''"
| "class_name (Other cls r) = cls"
| "class_name (Program cs) = ''Program''"
| "class_name (Block cs) = ''Block''"
| "class_name (VarStatement cs) = ''VarStatement''"
| "class_name (VarDecl a b) = ''VarDecl''"
| "class_name (Identifier v) = ''Identifier''"
| "class_name (Assign l op r) = ''Assign''"
| "class_name (Number v) = ''Number''"
| "class_name (Comma l r) = ''Comma''"
| "class_name (EmptyStatement v) = ''EmptyStatement''"
| "class_name (If_node p c a) = ''If''"
| "class_name (Boolean v) = ''Boolean''"
| "class_name (For a b c d) = ''For''"
| "class_name (ForIn a b c) = ''ForIn''"
| "class_name (BinOp l op r) = ''BinOp''"
| "class_name (UnaryOp op x pf) = ''UnaryOp''"
| "class_name (ExprStatement e) = ''ExprStatement''"
| "class_name (DoWhile p s) = ''DoWhile''"
| "class_name (While p s) = ''While''"
| "class_name (Null v) = ''Null''"
| "class_name (String v) = ''String''"
| "class_name (Continue l) = ''Continue''"
| "class_name (Break l) = ''Break''"
| "class_name (Return e) = ''Return''"
| "class_name (With e s) = ''With''"
| "class_name (Label l s) = ''Label''"
| "class_name (Switch e cs d) = ''Switch''"
| "class_name (Case e els) = ''Case''"
| "class_name (Default els) = ''Default''"
| "class_name (Throw e) = ''Throw''"
| "class_name (Debugger v) = ''Debugger''"
| "class_name (Try s c f) = ''Try''"
| "class_name (Catch i b) = ''Catch''"
| "class_name (Finally b) = ''Finally''"

section \<open>The renderer's state and its failures\<close>

text \<open>
  \<^verbatim>\<open>class ECMAVisitor\<close> has one attribute, set to 0 by \<^verbatim>\<open>__init__\<close>. Python integers
  are unbounded.
\<close>

record ECMAVisitor =
  indent_level :: int

definition ECMAVisitor_init :: ECMAVisitor where
  "ECMAVisitor_init = \<lparr>indent_level = 0\<rparr>"

text \<open>
  The exceptions a rule can raise on the trees above: reading an attribute the object
  does not have (\<open>AttributeError cls attr\<close>) and iterating an object that is not a
  sequence (\<open>TypeError cls\<close>). No rule catches an exception, so a call yields the text
  or the exception, and in both cases the renderer as the call left it. The interpreter's
  recursion limit is not part of the model.
\<close>

datatype error = AttributeError string string | TypeError string

type_synonym 'a outcome = "(error + 'a) \<times> ECMAVisitor"

text \<open>Sequencing: the next statement runs only when the previous call returned.\<close>

definition bind :: "'a outcome \<Rightarrow> ('a \<Rightarrow> ECMAVisitor \<Rightarrow> 'b outcome) \<Rightarrow> 'b outcome" where
  "bind r f = (case r of (Inl e, self') \<Rightarrow> (Inl e, self') | (Inr v, self') \<Rightarrow> f v self')"

lemma bind_cong [fundef_cong]:
  "r1 = r2 \<Longrightarrow> (\<And>v self'. r2 = (Inr v, self') \<Longrightarrow> f1 v self' = f2 v self') \<Longrightarrow>
   bind r1 f1 = bind r2 f2"
  by (auto simp: bind_def split: prod.splits sum.splits)

text \<open>\<^verbatim>\<open>' ' * self.indent_level\<close>: a negative count gives the empty string.\<close>

definition make_indent :: "ECMAVisitor \<Rightarrow> string" where
  "make_indent self = replicate (nat (indent_level self)) (CHR '' '')"

text \<open>\<^verbatim>\<open>sep.join(parts)\<close>\<close>

fun join :: "string \<Rightarrow> string list \<Rightarrow> string" where
  "join sep [] = []"
| "join sep [x] = x"
| "join sep (x # y # ys) = x @ sep @ join sep (y # ys)"

section \<open>The dispatcher\<close>

text \<open>
  \<^verbatim>\<open>visit\<close> looks the method \<^verbatim>\<open>visit_<class name>\<close> up on the renderer and falls back
  to \<^verbatim>\<open>generic_visit\<close>. The methods the class defines, in the order of the source:
\<close>

definition rule_names :: "string list" where
  "rule_names =
    [''Program'', ''Block'', ''VarStatement'', ''VarDecl'', ''Identifier'', ''Assign'',
     ''Number'', ''Comma'', ''EmptyStatement'', ''If'', ''Boolean'', ''For'', ''ForIn'',
     ''BinOp'', ''UnaryOp'', ''ExprStatement'', ''DoWhile'', ''While'', ''Null'', ''String'',
     ''Continue'', ''Break'', ''Return'', ''With'', ''Label'', ''Switch'', ''Case'',
     ''Default'', ''Throw'', ''Debugger'', ''Try'', ''Catch'', ''Finally'']"

definition has_rule :: "string \<Rightarrow> bool" where
  "has_rule cls = (cls \<in> set rule_names)"

text \<open>\<^verbatim>\<open>'GEN: %r' % node\<close>, given the text of \<^verbatim>\<open>repr(node)\<close>.\<close>

definition generic_visit :: "string \<Rightarrow> string" where
  "generic_visit r = ''GEN: '' @ r"

text \<open>
  The first attribute each rule reads from its node. \<^verbatim>\<open>visit_Null\<close> reads none.
\<close>

definition first_attr :: "(string \<times> string) list" where
  "first_attr =
    [(''Program'', ''children''), (''Block'', ''children''), (''VarStatement'', ''children''),
     (''VarDecl'', ''identifier''), (''Identifier'', ''value''), (''Assign'', ''left''),
     (''Number'', ''value''), (''Comma'', ''left''), (''EmptyStatement'', ''value''),
     (''If'', ''predicate''), (''Boolean'', ''value''), (''For'', ''init''), (''ForIn'', ''item''),
     (''BinOp'', ''left''), (''UnaryOp'', ''value''), (''ExprStatement'', ''expr''),
     (''DoWhile'', ''statement''), (''While'', ''predicate''), (''String'', ''value''),
     (''Continue'', ''identifier''), (''Break'', ''identifier''), (''Return'', ''expr''),
     (''With'', ''expr''), (''Label'', ''identifier''), (''Switch'', ''expr''), (''Case'', ''expr''),
     (''Default'', ''elements''), (''Throw'', ''expr''), (''Debugger'', ''value''),
     (''Try'', ''statements''), (''Catch'', ''identifier''), (''Finally'', ''elements'')]"

text \<open>
  An object of a foreign class is dispatched by its class name like any other. With no
  rule of that name it goes to \<^verbatim>\<open>generic_visit\<close>. Under the name of a rule, the rule
  runs up to its first attribute read, which raises; \<^verbatim>\<open>visit_Block\<close> and
  \<^verbatim>\<open>visit_Default\<close> have raised the indentation by then, and \<^verbatim>\<open>visit_Null\<close> reads
  nothing and returns.
\<close>

definition visit_foreign :: "string \<Rightarrow> string \<Rightarrow> ECMAVisitor \<Rightarrow> string outcome" where
  "visit_foreign cls r self =
     (if \<not> has_rule cls then (Inr (generic_visit r), self)
      else if cls = ''Null'' then (Inr ''null'', self)
      else (Inl (AttributeError cls (case map_of first_attr cls of None \<Rightarrow> [] | Some a \<Rightarrow> a)),
            if cls = ''Block'' \<or> cls = ''Default''
            then self\<lparr>indent_level := indent_level self + 2\<rparr> else self))"

text \<open>
  \<^verbatim>\<open>visit_Identifier\<close> returns \<^verbatim>\<open>node.value\<close>. \<^verbatim>\<open>visit_Continue\<close> and
  \<^verbatim>\<open>visit_Break\<close> call it directly, on whatever the \<^verbatim>\<open>identifier\<close> field holds, and
  format the result with \<^verbatim>\<open>%s\<close>. The value of a \<open>UnaryOp\<close> is its operand, an object;
  what \<^verbatim>\<open>str\<close> gives for a node object is decided by \<^verbatim>\<open>slimit.ast\<close>, so it is the
  parameter \<open>S\<close> of the renderer (\<^verbatim>\<open>str(None)\<close> is fixed).
\<close>

datatype pyval = PStr string | PObj node

definition visit_Identifier :: "node \<Rightarrow> error + pyval" where
  "visit_Identifier n =
     (case n of
        Identifier v \<Rightarrow> Inr (PStr v)
      | Number v \<Rightarrow> Inr (PStr v)
      | EmptyStatement v \<Rightarrow> Inr (PStr v)
      | Boolean v \<Rightarrow> Inr (PStr v)
      | Null v \<Rightarrow> Inr (PStr v)
      | String v \<Rightarrow> Inr (PStr v)
      | Debugger v \<Rightarrow> Inr (PStr v)
      | UnaryOp op x pf \<Rightarrow> Inr (PObj x)
      | _ \<Rightarrow> Inl (AttributeError (class_name n) ''value''))"

definition py_str :: "(node \<Rightarrow> string) \<Rightarrow> pyval \<Rightarrow> string" where
  "py_str S v = (case v of PStr s \<Rightarrow> s | PObj x \<Rightarrow> (if x = PyNone then ''None'' else S x))"

text \<open>\<^verbatim>\<open>isinstance(node.init, (ast.Assign, ast.Comma))\<close> and
  \<^verbatim>\<open>isinstance(node.item, ast.VarDecl)\<close>\<close>

definition is_Assign_or_Comma :: "node \<Rightarrow> bool" where
  "is_Assign_or_Comma n = (case n of Assign l op r \<Rightarrow> True | Comma l r \<Rightarrow> True | _ \<Rightarrow> False)"

definition is_VarDecl :: "node \<Rightarrow> bool" where
  "is_VarDecl n = (case n of VarDecl a b \<Rightarrow> True | _ \<Rightarrow> False)"

section \<open>The formatting rules\<close>

text \<open>
  One equation of \<open>visit\<close> per rule, chosen by the class of the node as the dispatcher
  does. \<open>visit_children\<close> is the generator \<^verbatim>\<open>self.visit(child) for child in xs\<close> as
  \<^verbatim>\<open>join\<close> consumes it, \<open>visit_cases\<close> the loop of \<^verbatim>\<open>visit_Switch\<close> over
  \<^verbatim>\<open>node.cases\<close>. \<^verbatim>\<open>visit_Switch\<close> calls \<^verbatim>\<open>visit_Case\<close> and \<^verbatim>\<open>visit_Default\<close>
  directly, without the dispatcher, so these two rules are functions of any node: they
  raise where the object has no \<^verbatim>\<open>expr\<close> or \<^verbatim>\<open>elements\<close>, or where its
  \<^verbatim>\<open>elements\<close> is a single node (\<open>Catch\<close>, \<open>Finally\<close>) and not a list (the rules
  iterate \<^verbatim>\<open>children\<close> and \<^verbatim>\<open>elements\<close> lists only; a node object is taken not to
  be iterable).
\<close>

fun visit :: "(node \<Rightarrow> string) \<Rightarrow> node \<Rightarrow> ECMAVisitor \<Rightarrow> string outcome"
  and visit_children :: "(node \<Rightarrow> string) \<Rightarrow> node list \<Rightarrow> ECMAVisitor \<Rightarrow> string list outcome"
  and visit_cases :: "(node \<Rightarrow> string) \<Rightarrow> node list \<Rightarrow> string \<Rightarrow> ECMAVisitor \<Rightarrow> string outcome"
  and visit_Case :: "(node \<Rightarrow> string) \<Rightarrow> node \<Rightarrow> ECMAVisitor \<Rightarrow> string outcome"
  and visit_Default :: "(node \<Rightarrow> string) \<Rightarrow> node \<Rightarrow> ECMAVisitor \<Rightarrow> string outcome"
where
  "visit S PyNone self = (Inr (generic_visit ''None''), self)"
| "visit S (Other cls r) self = visit_foreign cls r self"
| "visit S (Program children) self =
     bind (visit_children S children self) (\<lambda>ts self1.
       (Inr (join ''\<newline>'' ts), self1))"
| "visit S (Block children) self =
     (let s = make_indent self @ ''{\<newline>'';
          self1 = self\<lparr>indent_level := indent_level self + 2\<rparr>
      in bind (visit_children S children self1) (\<lambda>ts self2.
           let s = s @ join ''\<newline>'' ts;
               self3 = self2\<lparr>indent_level := indent_level self2 - 2\<rparr>;
               s = s @ make_indent self3 @ ''\<newline>}''
           in (Inr s, self3)))"
| "visit S (VarStatement children) self =
     (let s = make_indent self
      in bind (visit_children S children self) (\<lambda>ts self1.
           (Inr (s @ ''var '' @ join '', '' ts @ '';''), self1)))"
| "visit S (VarDecl identifier initializer) self =
     bind (visit S identifier self) (\<lambda>a self1.
       if initializer \<noteq> PyNone
       then bind (visit S initializer self1) (\<lambda>b self2.
              (Inr (a @ '' = '' @ b), self2))
       else (Inr a, self1))"
| "visit S (Identifier v) self = (Inr v, self)"
| "visit S (Assign left op right) self =
     (let s = make_indent self
      in bind (visit S left self) (\<lambda>a self1.
         bind (visit S right self1) (\<lambda>b self2.
           (Inr (s @ a @ '' '' @ op @ '' '' @ b), self2))))"
| "visit S (Number v) self = (Inr v, self)"
| "visit S (Comma left right) self =
     bind (visit S left self) (\<lambda>a self1.
     bind (visit S right self1) (\<lambda>b self2.
       (Inr (a @ '', '' @ b), self2)))"
| "visit S (EmptyStatement v) self = (Inr (make_indent self @ v), self)"
| "visit S (If_node predicate consequent alternative) self =
     bind (if predicate \<noteq> PyNone then visit S predicate self else (Inr [], self)) (\<lambda>p self1.
     bind (visit S consequent self1) (\<lambda>c self2.
       let s = ''if ('' @ p @ '') '' @ c
       in if alternative \<noteq> PyNone
          then bind (visit S alternative self2) (\<lambda>a self3.
                 (Inr (s @ '' else '' @ a), self3))
          else (Inr s, self2)))"
| "visit S (Boolean v) self = (Inr v, self)"
| "visit S (For init cond count statement) self =
     bind (visit S init self) (\<lambda>i self1.
       let s = ''for ('' @ i;
           s = (if is_Assign_or_Comma init then s @ ''; '' else s @ '' '')
       in bind (if cond \<noteq> PyNone then visit S cond self1 else (Inr [], self1)) (\<lambda>c self2.
          let s = s @ c @ ''; ''
          in bind (if count \<noteq> PyNone then visit S count self2 else (Inr [], self2)) (\<lambda>n self3.
             bind (visit S statement self3) (\<lambda>b self4.
               (Inr (s @ n @ '') '' @ b), self4)))))"
| "visit S (ForIn item iterable statement) self =
     bind (visit S item self) (\<lambda>a self1.
     bind (visit S iterable self1) (\<lambda>b self2.
       let s = (if is_VarDecl item
                then ''for (var '' @ a @ '' in '' @ b @ '') ''
                else ''for ('' @ a @ '' in '' @ b @ '') '')
       in bind (visit S statement self2) (\<lambda>c self3.
            (Inr (s @ c), self3))))"
| "visit S (BinOp left op right) self =
     bind (visit S left self) (\<lambda>a self1.
     bind (visit S right self1) (\<lambda>b self2.
       (Inr (a @ '' '' @ op @ '' '' @ b), self2)))"
| "visit S (UnaryOp op v postfix) self =
     bind (visit S v self) (\<lambda>s self1.
       (Inr (if postfix then s @ op else op @ s), self1))"
| "visit S (ExprStatement expr) self =
     bind (visit S expr self) (\<lambda>e self1. (Inr (e @ '';''), self1))"
| "visit S (DoWhile predicate statement) self =
     bind (visit S statement self) (\<lambda>b self1.
     bind (visit S predicate self1) (\<lambda>p self2.
       (Inr (''do '' @ b @ '' while ('' @ p @ '');''), self2)))"
| "visit S (While predicate statement) self =
     bind (visit S predicate self) (\<lambda>p self1.
     bind (visit S statement self1) (\<lambda>b self2.
       (Inr (''while ('' @ p @ '') '' @ b), self2)))"
| "visit S (Null v) self = (Inr ''null'', self)"
| "visit S (String v) self = (Inr v, self)"
| "visit S (Continue identifier) self =
     (let s = make_indent self
      in if identifier \<noteq> PyNone
         then (case visit_Identifier identifier of
                 Inl e \<Rightarrow> (Inl e, self)
               | Inr v \<Rightarrow> (Inr (s @ ''continue '' @ py_str S v @ '';''), self))
         else (Inr (s @ ''continue;''), self))"
| "visit S (Break identifier) self =
     (let s = make_indent self
      in if identifier \<noteq> PyNone
         then (case visit_Identifier identifier of
                 Inl e \<Rightarrow> (Inl e, self)
               | Inr v \<Rightarrow> (Inr (s @ ''break '' @ py_str S v @ '';''), self))
         else (Inr (s @ ''break;''), self))"
| "visit S (Return expr) self =
     (let s = make_indent self
      in if expr = PyNone
         then (Inr (s @ ''return;''), self)
         else bind (visit S expr self) (\<lambda>e self1.
                (Inr (s @ ''return '' @ e @ '';''), self1)))"
| "visit S (With expr statement) self =
     (let s = make_indent self
      in bind (visit S expr self) (\<lambda>e self1.
         bind (visit S statement self1) (\<lambda>b self2.
           (Inr (s @ ''with ('' @ e @ '') '' @ b), self2))))"
| "visit S (Label identifier statement) self =
     (let s = make_indent self
      in bind (visit S identifier self) (\<lambda>l self1.
         bind (visit S statement self1) (\<lambda>b self2.
           (Inr (s @ l @ '': '' @ b), self2))))"
| "visit S (Switch expr cases dflt) self =
     (let s = make_indent self
      in bind (visit S expr self) (\<lambda>e self1.
           let s = s @ ''switch ('' @ e @ '') {\<newline>'';
               self2 = self1\<lparr>indent_level := indent_level self1 + 2\<rparr>
           in bind (visit_cases S cases s self2) (\<lambda>s self3.
              bind (if dflt \<noteq> PyNone
                    then bind (visit_Default S dflt self3) (\<lambda>d self4. (Inr (s @ d), self4))
                    else (Inr s, self3)) (\<lambda>s self5.
                (Inr (s @ ''\<newline>}''), self5\<lparr>indent_level := indent_level self5 - 2\<rparr>)))))"
| "visit S (Case expr elements) self = visit_Case S (Case expr elements) self"
| "visit S (Default elements) self = visit_Default S (Default elements) self"
| "visit S (Throw expr) self =
     (let s = make_indent self
      in bind (visit S expr self) (\<lambda>e self1.
           (Inr (s @ ''throw '' @ e @ '';''), self1)))"
| "visit S (Debugger v) self = (Inr (v @ '';''), self)"
| "visit S (Try statements catch fin) self =
     (let s = make_indent self @ ''try ''
      in bind (visit S statements self) (\<lambda>b self1.
         bind (if catch \<noteq> PyNone
               then bind (visit S catch self1) (\<lambda>c self2. (Inr (s @ b @ '' '' @ c), self2))
               else (Inr (s @ b), self1)) (\<lambda>s self3.
           if fin \<noteq> PyNone
           then bind (visit S fin self3) (\<lambda>f self4. (Inr (s @ '' '' @ f), self4))
           else (Inr s, self3))))"
| "visit S (Catch identifier elements) self =
     (let s = make_indent self
      in bind (visit S identifier self) (\<lambda>i self1.
         bind (visit S elements self1) (\<lambda>b self2.
           (Inr (s @ ''catch ('' @ i @ '') '' @ b), self2))))"
| "visit S (Finally elements) self =
     (let s = make_indent self
      in bind (visit S elements self) (\<lambda>b self1.
           (Inr (s @ ''finally '' @ b), self1)))"
| "visit_children S [] self = (Inr [], self)"
| "visit_children S (child # children) self =
     bind (visit S child self) (\<lambda>t self1.
     bind (visit_children S children self1) (\<lambda>ts self2.
       (Inr (t # ts), self2)))"
| "visit_cases S [] s self = (Inr s, self)"
| "visit_cases S (c # cases) s self =
     bind (visit_Case S c self) (\<lambda>t self1. visit_cases S cases (s @ t) self1)"
| "visit_Case S n self =
     (let s = make_indent self
      in case n of
           Case expr elements \<Rightarrow>
             bind (visit S expr self) (\<lambda>e self1.
               let s = s @ ''case '' @ e @ '':\<newline>'';
                   self2 = self1\<lparr>indent_level := indent_level self1 + 2\<rparr>
               in bind (visit_children S elements self2) (\<lambda>ts self3.
                    let elements = join ''\<newline>'' ts;
                        s = (if elements \<noteq> [] then s @ elements @ ''\<newline>'' else s)
                    in (Inr s, self3\<lparr>indent_level := indent_level self3 - 2\<rparr>)))
         | ExprStatement expr \<Rightarrow>
             bind (visit S expr self) (\<lambda>e self1.
               (Inl (AttributeError ''ExprStatement'' ''elements''),
                self1\<lparr>indent_level := indent_level self1 + 2\<rparr>))
         | Return expr \<Rightarrow>
             bind (visit S expr self) (\<lambda>e self1.
               (Inl (AttributeError ''Return'' ''elements''),
                self1\<lparr>indent_level := indent_level self1 + 2\<rparr>))
         | With expr statement \<Rightarrow>
             bind (visit S expr self) (\<lambda>e self1.
               (Inl (AttributeError ''With'' ''elements''),
                self1\<lparr>indent_level := indent_level self1 + 2\<rparr>))
         | Switch expr cases dflt \<Rightarrow>
             bind (visit S expr self) (\<lambda>e self1.
               (Inl (AttributeError ''Switch'' ''elements''),
                self1\<lparr>indent_level := indent_level self1 + 2\<rparr>))
         | Throw expr \<Rightarrow>
             bind (visit S expr self) (\<lambda>e self1.
               (Inl (AttributeError ''Throw'' ''elements''),
                self1\<lparr>indent_level := indent_level self1 + 2\<rparr>))
         | _ \<Rightarrow> (Inl (AttributeError (class_name n) ''expr''), self))"
| "visit_Default S n self =
     (let s = make_indent self @ ''default:\<newline>'';
          self1 = self\<lparr>indent_level := indent_level self + 2\<rparr>
      in case n of
           Default elements \<Rightarrow>
             bind (visit_children S elements self1) (\<lambda>ts self2.
               (Inr (s @ join ''\<newline>'' ts), self2\<lparr>indent_level := indent_level self2 - 2\<rparr>))
         | Case expr elements \<Rightarrow>
             bind (visit_children S elements self1) (\<lambda>ts self2.
               (Inr (s @ join ''\<newline>'' ts), self2\<lparr>indent_level := indent_level self2 - 2\<rparr>))
         | Catch identifier elements \<Rightarrow> (Inl (TypeError (class_name elements)), self1)
         | Finally elements \<Rightarrow> (Inl (TypeError (class_name elements)), self1)
         | _ \<Rightarrow> (Inl (AttributeError (class_name n) ''elements''), self1))"

declare visit_Case.simps [simp del] visit_Default.simps [simp del]

text \<open>
  \<^verbatim>\<open>if node.cond is not None: s += self.visit(node.cond)\<close>: the text an optional child
  adds, nothing when it is absent.
\<close>

definition visit_optional :: "(node \<Rightarrow> string) \<Rightarrow> node \<Rightarrow> ECMAVisitor \<Rightarrow> string outcome" where
  "visit_optional S x self = (if x \<noteq> PyNone then visit S x self else (Inr [], self))"

text \<open>An instance of the parameter \<open>S\<close> for the concrete renderings below.\<close>

definition sample_str :: "node \<Rightarrow> string" where
  "sample_str n = ''<'' @ class_name n @ '' object>''"

text \<open>A call that returns leaves the renderer as it found it.\<close>

definition restores :: "ECMAVisitor \<Rightarrow> 'a outcome \<Rightarrow> bool" where
  "restores self r = (case r of (Inr t, self') \<Rightarrow> self' = self | (Inl e, self') \<Rightarrow> True)"

section \<open>Evaluation and the indentation invariant\<close>

lemmas run_simps = bind_def make_indent_def Let_def ECMAVisitor_init_def visit_Case.simps
  visit_Default.simps visit_foreign_def generic_visit_def has_rule_def rule_names_def
  visit_Identifier_def py_str_def sample_str_def is_Assign_or_Comma_def is_VarDecl_def
  visit_optional_def first_attr_def eval_nat_numeral

lemma restores_Inr [simp]: "restores self (Inr t, self') \<longleftrightarrow> self' = self"
  by (simp add: restores_def)

lemma restores_Inl [simp]: "restores self (Inl e, self')"
  by (simp add: restores_def)

lemma restores_bind:
  "restores self r \<Longrightarrow> (\<And>v. r = (Inr v, self) \<Longrightarrow> restores self (f v self)) \<Longrightarrow>
   restores self (bind r f)"
  by (cases r) (auto simp: bind_def restores_def split: sum.splits)

text \<open>The same for a call made at another level \<open>mid\<close>, as inside a block.\<close>

lemma restores_bind_shift:
  "restores mid r \<Longrightarrow> (\<And>v. r = (Inr v, mid) \<Longrightarrow> restores self (f v mid)) \<Longrightarrow>
   restores self (bind r f)"
  by (cases r) (auto simp: bind_def restores_def split: sum.splits)

lemma visit_restores_all:
  "restores self (visit S n self)"
  "restores self (visit_children S ns self)"
  "restores self (visit_cases S ns s self)"
  "restores self (visit_Case S n self)"
  "restores self (visit_Default S n self)"
proof (induction S n self and S ns self and S ns s self and S n self and S n self
    rule: visit_visit_children_visit_cases_visit_Case_visit_Default.induct)
  case (2 S cls r self)
  then show ?case by (simp add: visit_foreign_def)
next
  case (4 S cs self)
  then show ?case by (auto simp: Let_def intro!: restores_bind_shift)
next
  case (28 S e cs d self)
  let ?in = "self\<lparr>indent_level := indent_level self + 2\<rparr>"
  show ?case
    apply (simp add: Let_def)
    apply (rule restores_bind)
     apply (simp add: 28)
    apply (rule restores_bind_shift [where mid = ?in])
     apply (simp add: 28)
    apply (rule restores_bind_shift [where mid = ?in])
     apply (auto intro!: restores_bind_shift [where mid = ?in] simp: 28)
    done
next
  case (39 S c cs s self)
  then show ?case by (auto intro!: restores_bind)
next
  case (40 S n self)
  let ?in = "self\<lparr>indent_level := indent_level self + 2\<rparr>"
  show ?case
  proof (cases n)
    case (Case e els)
    show ?thesis
      apply (simp add: Case visit_Case.simps Let_def)
      apply (rule restores_bind)
       apply (simp add: 40 Case)
      apply (rule restores_bind_shift [where mid = ?in])
       apply (simp add: 40 Case)
      apply simp
      done
  qed (use 40 in \<open>auto simp: visit_Case.simps Let_def intro!: restores_bind\<close>)
next
  case (41 S n self)
  let ?in = "self\<lparr>indent_level := indent_level self + 2\<rparr>"
  from 41 show ?case
    by (cases n)
      (auto simp: visit_Default.simps Let_def intro!: restores_bind_shift [where mid = ?in])
qed (auto simp: Let_def intro!: restores_bind split: sum.splits)

section \<open>The claims\<close>

text \<open>
  C1 (the code departs from the claim). The claim: an \<open>If\<close> with predicate \<open>x\<close> and
  consequent a \<open>Block\<close> of the one statement \<open>ExprStatement(x)\<close> renders to
  \<^verbatim>\<open>if (x) {\n  x;\n}\<close>, the inner statement indented by two spaces. The code:
  \<^verbatim>\<open>visit_Block\<close> raises the indentation level for its children, but
  \<^verbatim>\<open>visit_ExprStatement\<close> does not emit it, so a fresh renderer returns
  \<^verbatim>\<open>if (x) {\nx;\n}\<close>, with \<open>x;\<close> at the start of its line. A \<open>Return\<close> in
  the same place is indented, since \<^verbatim>\<open>visit_Return\<close> emits the indentation.
\<close>

theorem visit_If_Block_ExprStatement_unindented:
  "visit S (If_node (Identifier ''x'') (Block [ExprStatement (Identifier ''x'')]) PyNone)
     ECMAVisitor_init = (Inr ''if (x) {\<newline>x;\<newline>}'', ECMAVisitor_init) \<and>
   visit S (If_node (Identifier ''x'') (Block [ExprStatement (Identifier ''x'')]) PyNone)
     ECMAVisitor_init \<noteq> (Inr ''if (x) {\<newline>  x;\<newline>}'', ECMAVisitor_init) \<and>
   visit S (If_node (Identifier ''x'') (Block [Return (Identifier ''x'')]) PyNone)
     ECMAVisitor_init = (Inr ''if (x) {\<newline>  return x;\<newline>}'', ECMAVisitor_init)"
  by (simp add: run_simps)

text \<open>
  C2, as amended: for every node and every starting value of the indentation counter,
  when a call to \<open>visit\<close> returns, the counter equals the value it had when the call
  began. (No rule catches an exception, so nothing is restored when a call raises.)
\<close>

theorem visit_restores_indent_level:
  "visit S n self = (Inr t, self') \<Longrightarrow> indent_level self' = indent_level self"
  using visit_restores_all(1) [of self S n] by simp

text \<open>Witness: a block holding one \<open>return;\<close>, rendered at level 4.\<close>

theorem visit_restores_indent_level_witness:
  "fst (visit sample_str (Block [Return PyNone]) \<lparr>indent_level = 4\<rparr>) =
     Inr ''    {\<newline>      return;    \<newline>}'' \<and>
   indent_level (snd (visit sample_str (Block [Return PyNone]) \<lparr>indent_level = 4\<rparr>)) = 4"
  using visit_restores_indent_level [of sample_str "Block [Return PyNone]"
      "\<lparr>indent_level = 4\<rparr>" "''    {\<newline>      return;    \<newline>}''" "\<lparr>indent_level = 4\<rparr>"]
  by (simp add: run_simps)

text \<open>
  C2 as stated (the counter is restored also when the rendering of an inner child
  fails) is false: a block holding a \<open>switch\<close> whose \<open>cases\<close> list holds a \<open>Default\<close>
  clause. \<^verbatim>\<open>visit_Block\<close> and \<^verbatim>\<open>visit_Switch\<close> have each raised the level by 2 when
  \<^verbatim>\<open>visit_Case\<close> reads \<^verbatim>\<open>node.expr\<close> of the \<open>Default\<close> object; the exception
  leaves a fresh renderer at level 4.
\<close>

theorem visit_failure_keeps_increment:
  "visit sample_str (Block [Switch (Identifier ''x'') [Default [Break PyNone]] PyNone])
     ECMAVisitor_init = (Inl (AttributeError ''Default'' ''expr''), \<lparr>indent_level = 4\<rparr>) \<and>
   indent_level ECMAVisitor_init = 0"
  by (simp add: run_simps)




text \<open>
  C4: an \<open>Identifier\<close>, \<open>Number\<close>, \<open>Boolean\<close> or \<open>String\<close> node renders to exactly
  its stored text, and a \<open>Null\<close> node to the keyword \<^verbatim>\<open>null\<close> whatever it stores; the
  renderer is unchanged.
\<close>

theorem visit_literals:
  "visit S (Identifier v) self = (Inr v, self) \<and>
   visit S (Number v) self = (Inr v, self) \<and>
   visit S (Boolean v) self = (Inr v, self) \<and>
   visit S (String v) self = (Inr v, self) \<and>
   visit S (Null v) self = (Inr ''null'', self)"
  by simp

text \<open>
  C5: for every \<open>For\<close> node whose parts render, the text is
  \<^verbatim>\<open>for (\<close>, the rendering of \<open>init\<close>, then \<^verbatim>\<open>; \<close> (a semicolon right after the
  rendering, and a space) when \<open>init\<close> is an \<open>Assign\<close> or a \<open>Comma\<close> and a single
  space otherwise, then the condition, \<^verbatim>\<open>; \<close>, the count, \<^verbatim>\<open>) \<close> and the body; an
  absent condition or count adds nothing.
\<close>

theorem visit_For_separator:
  assumes "visit S init self = (Inr i, self1)"
    and "visit_optional S cond self1 = (Inr c, self2)"
    and "visit_optional S count self2 = (Inr n, self3)"
    and "visit S statement self3 = (Inr b, self4)"
  shows "visit S (For init cond count statement) self =
     (Inr (''for ('' @ i @ (if is_Assign_or_Comma init then ''; '' else '' '') @
           c @ ''; '' @ n @ '') '' @ b), self4) \<and>
     (is_Assign_or_Comma init \<longleftrightarrow>
        (\<exists>l op r. init = Assign l op r) \<or> (\<exists>l r. init = Comma l r)) \<and>
     visit_optional S PyNone self1 = (Inr [], self1)"
proof -
  have "is_Assign_or_Comma init \<longleftrightarrow>
      (\<exists>l op r. init = Assign l op r) \<or> (\<exists>l r. init = Comma l r)"
    by (cases init) (simp_all add: is_Assign_or_Comma_def)
  moreover have "visit S (For init cond count statement) self =
     (Inr (''for ('' @ i @ (if is_Assign_or_Comma init then ''; '' else '' '') @
           c @ ''; '' @ n @ '') '' @ b), self4)"
    using assms by (simp add: bind_def visit_optional_def Let_def)
  ultimately show ?thesis by (simp add: visit_optional_def)
qed

text \<open>Witness: \<^verbatim>\<open>for (i = 0; i < 3; ) ;\<close>, an assignment as \<open>init\<close> and no count.\<close>

theorem visit_For_separator_witness:
  "visit sample_str
     (For (Assign (Identifier ''i'') ''='' (Number ''0''))
          (BinOp (Identifier ''i'') ''<'' (Number ''3'')) PyNone (EmptyStatement '';''))
     ECMAVisitor_init = (Inr ''for (i = 0; i < 3; ) ;'', ECMAVisitor_init)"
  using visit_For_separator [of sample_str "Assign (Identifier ''i'') ''='' (Number ''0'')"
      ECMAVisitor_init "''i = 0''" ECMAVisitor_init
      "BinOp (Identifier ''i'') ''<'' (Number ''3'')" "''i < 3''" ECMAVisitor_init
      PyNone "[]" ECMAVisitor_init "EmptyStatement '';''" "'';''" ECMAVisitor_init]
  by (simp add: run_simps)

text \<open>
  C6, as amended: a \<open>Debugger\<close> node renders to its stored value followed by \<^verbatim>\<open>;\<close>,
  with no indentation; the text is \<^verbatim>\<open>debugger;\<close> when the value is \<^verbatim>\<open>debugger\<close>.
\<close>

theorem visit_Debugger_value:
  "visit S (Debugger v) self = (Inr (v @ '';''), self)"
  by simp

text \<open>
  C6 as stated (a fixed text that does not depend on what the node carries) is false:
  two \<open>Debugger\<close> nodes with different values render differently.
\<close>

theorem visit_Debugger_depends_on_value:
  "visit sample_str (Debugger ''debugger'') ECMAVisitor_init =
     (Inr ''debugger;'', ECMAVisitor_init) \<and>
   visit sample_str (Debugger ''stop'') ECMAVisitor_init = (Inr ''stop;'', ECMAVisitor_init) \<and>
   visit sample_str (Debugger ''debugger'') ECMAVisitor_init \<noteq>
   visit sample_str (Debugger ''stop'') ECMAVisitor_init"
  by simp

text \<open>
  C7: a \<open>Return\<close> with no expression renders to the current indentation followed by
  \<^verbatim>\<open>return;\<close>, which is exactly \<^verbatim>\<open>return;\<close> at zero indentation; with an expression
  whose rendering is \<open>e\<close> it renders to the indentation, \<^verbatim>\<open>return \<close>, \<open>e\<close> and
  \<^verbatim>\<open>;\<close>.
\<close>

theorem visit_Return_text:
  "visit S (Return PyNone) self = (Inr (make_indent self @ ''return;''), self) \<and>
   visit S (Return PyNone) ECMAVisitor_init = (Inr ''return;'', ECMAVisitor_init) \<and>
   (expr \<noteq> PyNone \<and> visit S expr self = (Inr e, self1) \<longrightarrow>
      visit S (Return expr) self = (Inr (make_indent self @ ''return '' @ e @ '';''), self1)) \<and>
   (expr \<noteq> PyNone \<and> visit S expr ECMAVisitor_init = (Inr e, self1) \<longrightarrow>
      visit S (Return expr) ECMAVisitor_init = (Inr (''return '' @ e @ '';''), self1))"
  by (simp add: bind_def make_indent_def ECMAVisitor_init_def)

text \<open>Witness: \<^verbatim>\<open>return x;\<close> at levels 0 and 2.\<close>

theorem visit_Return_text_witness:
  "visit sample_str (Return (Identifier ''x'')) ECMAVisitor_init =
     (Inr ''return x;'', ECMAVisitor_init) \<and>
   visit sample_str (Return (Identifier ''x'')) \<lparr>indent_level = 2\<rparr> =
     (Inr ''  return x;'', \<lparr>indent_level = 2\<rparr>)"
  using visit_Return_text [of sample_str ECMAVisitor_init "Identifier ''x''" "''x''"
      ECMAVisitor_init]
    visit_Return_text [of sample_str "\<lparr>indent_level = 2\<rparr>" "Identifier ''x''" "''x''"
      "\<lparr>indent_level = 2\<rparr>"]
  by (simp add: run_simps)

text \<open>
  C8: a \<open>VarStatement\<close> with the declarators \<open>a\<close> (no initializer) and \<open>b = 1\<close>
  renders to exactly \<^verbatim>\<open>var a, b = 1;\<close> at zero indentation. In general a
  \<open>VarStatement\<close> renders to the current indentation, \<^verbatim>\<open>var \<close>, the declarators'
  renderings joined by \<^verbatim>\<open>, \<close> and \<^verbatim>\<open>;\<close>, and a \<open>VarDecl\<close> to its identifier's
  rendering, followed by \<^verbatim>\<open> = \<close> and the initializer's rendering only when there is an
  initializer.
\<close>

theorem visit_VarStatement_two_decls:
  "visit S (VarStatement [VarDecl (Identifier ''a'') PyNone,
                          VarDecl (Identifier ''b'') (Number ''1'')]) ECMAVisitor_init =
     (Inr ''var a, b = 1;'', ECMAVisitor_init) \<and>
   (visit_children S children self = (Inr ts, self1) \<longrightarrow>
      visit S (VarStatement children) self =
        (Inr (make_indent self @ ''var '' @ join '', '' ts @ '';''), self1)) \<and>
   visit S (VarDecl ident PyNone) self = visit S ident self \<and>
   (initializer \<noteq> PyNone \<and> visit S ident self = (Inr a, self1) \<and>
    visit S initializer self1 = (Inr b, self2) \<longrightarrow>
      visit S (VarDecl ident initializer) self = (Inr (a @ '' = '' @ b), self2))"
proof -
  have "visit S (VarDecl ident PyNone) self = visit S ident self"
    by (cases "visit S ident self") (auto simp: bind_def split: sum.splits)
  then show ?thesis
    by (simp add: bind_def make_indent_def ECMAVisitor_init_def)
qed

text \<open>Witness: \<^verbatim>\<open>var c = 2;\<close> at level 2.\<close>

theorem visit_VarStatement_two_decls_witness:
  "visit sample_str (VarDecl (Identifier ''c'') (Number ''2'')) \<lparr>indent_level = 2\<rparr> =
     (Inr ''c = 2'', \<lparr>indent_level = 2\<rparr>) \<and>
   visit sample_str (VarStatement [VarDecl (Identifier ''c'') (Number ''2'')])
     \<lparr>indent_level = 2\<rparr> = (Inr ''  var c = 2;'', \<lparr>indent_level = 2\<rparr>)"
  using visit_VarStatement_two_decls [of sample_str "[VarDecl (Identifier ''c'') (Number ''2'')]"
      "\<lparr>indent_level = 2\<rparr>" "[''c = 2'']" "\<lparr>indent_level = 2\<rparr>" "Identifier ''c''"
      "Number ''2''" "''c''" "''2''" "\<lparr>indent_level = 2\<rparr>"]
  by (simp add: run_simps)



text \<open>
  C10, as amended: for every \<open>Block\<close> whose children render, at every indentation
  level, the text is the outer indentation, \<^verbatim>\<open>{\<close>, a newline, the children's
  renderings joined by newlines, then the outer indentation directly after the last
  child's rendering, a newline and \<^verbatim>\<open>}\<close>, so that the closing brace starts its
  line at every depth; a \<open>Block\<close> with no statement renders to the outer indentation,
  \<^verbatim>\<open>{\<close>, a newline, the outer indentation, a newline and \<^verbatim>\<open>}\<close>.
\<close>

theorem visit_Block_closing:
  "(visit_children S children (self\<lparr>indent_level := indent_level self + 2\<rparr>) = (Inr ts, self') \<longrightarrow>
      visit S (Block children) self =
        (Inr (make_indent self @ ''{\<newline>'' @ join ''\<newline>'' ts @ make_indent self @ ''\<newline>}''),
         self)) \<and>
   visit S (Block []) self =
     (Inr (make_indent self @ ''{\<newline>'' @ make_indent self @ ''\<newline>}''), self)"
  using visit_restores_all(2) [of "self\<lparr>indent_level := indent_level self + 2\<rparr>" S children]
  by (auto simp: bind_def Let_def)

text \<open>Witness: a block holding one \<open>return;\<close>, rendered at level 2.\<close>

theorem visit_Block_closing_witness:
  "visit sample_str (Block [Return PyNone]) \<lparr>indent_level = 2\<rparr> =
     (Inr ''  {\<newline>    return;  \<newline>}'', \<lparr>indent_level = 2\<rparr>)"
  using visit_Block_closing [of sample_str "[Return PyNone]" "\<lparr>indent_level = 2\<rparr>"
      "[''    return;'']" "\<lparr>indent_level = 4\<rparr>"]
  by (simp add: run_simps)

text \<open>
  C10 as stated (an empty \<open>Block\<close> renders to \<^verbatim>\<open>{\<close>, a newline, the outer
  indentation, a newline and \<^verbatim>\<open>}\<close>) is false at level 2: the text starts with the
  outer indentation.
\<close>

theorem visit_Block_empty_indented:
  "visit sample_str (Block []) \<lparr>indent_level = 2\<rparr> =
     (Inr ''  {\<newline>  \<newline>}'', \<lparr>indent_level = 2\<rparr>) \<and>
   ''  {\<newline>  \<newline>}'' \<noteq> ''{\<newline>'' @ make_indent \<lparr>indent_level = 2\<rparr> @ ''\<newline>}''"
  by (simp add: run_simps)

end
